theory Spec2Isabelle
  imports Complex_Main "HOL-Library.Multiset"
begin

section \<open>Data model\<close>

text \<open>
  Exceptions of \<^verbatim>\<open>osmgeocoder/geocoder.py\<close> as values. \<open>StopIteration\<close> is what
  \<^verbatim>\<open>next(generator)\<close> raises on an exhausted generator, \<open>IndexError\<close> what
  \<^verbatim>\<open>response.json()[0]\<close> raises on an empty array, \<open>ConnectionError\<close> the one
  exception class that \<^verbatim>\<open>_fetch_coordinate\<close> catches, \<open>OtherRequestError\<close> any
  exception of \<^verbatim>\<open>post\<close> that is not an instance of \<open>ConnectionError\<close>,
  \<open>JSONDecodeError\<close> a response body that is not JSON, and \<open>DatabaseError\<close> whatever
  \<^verbatim>\<open>cursor.execute\<close> raises.
\<close>

datatype error =
    StopIteration
  | IndexError
  | ConnectionError
  | OtherRequestError
  | JSONDecodeError
  | DatabaseError

text \<open>
  A row of the ring query of \<^verbatim>\<open>_fetch_address\<close>: the five address columns
  (nullable, since road, house number and name may be NULL and postcode and city come
  from LEFT JOINs) and the distance to the query point.
\<close>

record address_row =
  house :: "string option"
  road :: "string option"
  house_number :: "string option"
  postcode :: "string option"
  city :: "string option"
  distance :: real

type_synonym address_key =
  "string option \<times> string option \<times> string option \<times> string option \<times> string option"

section \<open>The ring query of \<^verbatim>\<open>_fetch_address\<close>\<close>

text \<open>
  The SQL of \<^verbatim>\<open>_fetch_address\<close> is read as a function on rows. Its input is the
  list of rows of buildings LEFT JOIN postcode LEFT JOIN admin, each carrying
  \<^verbatim>\<open>ST_Distance(b.geometry, point)\<close> as \<open>distance\<close>.

  The subquery keeps the rows with \<^verbatim>\<open>ST_DWithin(b.geometry, point, radius)\<close>, that is
  the rows whose distance is at most the radius, orders them by distance and keeps the
  first \<^verbatim>\<open>limit\<close> of them.
\<close>

definition subquery_rows :: "address_row list \<Rightarrow> nat \<Rightarrow> nat \<Rightarrow> address_row list" where
  "subquery_rows joined radius limit =
     take limit (sort_key distance (filter (\<lambda>r. distance r \<le> real radius) joined))"

text \<open>
  \<^verbatim>\<open>GROUP BY house, road, house_number, postcode, city\<close>: NULLs fall into one group,
  which is equality of \<open>option\<close> values.
\<close>

definition group_key :: "address_row \<Rightarrow> address_key" where
  "group_key r = (house r, road r, house_number r, postcode r, city r)"

text \<open>
  \<^verbatim>\<open>SELECT house, road, house_number, postcode, city, min(distance) ... GROUP BY ...\<close>:
  one output row for each key, in the order in which the keys first occur.
\<close>

fun group_rows :: "address_row list \<Rightarrow> address_row list" where
  "group_rows [] = []"
| "group_rows (r # rs) =
     r\<lparr>distance := min_list (map distance (r # filter (\<lambda>s. group_key s = group_key r) rs))\<rparr>
       # group_rows (filter (\<lambda>s. group_key s \<noteq> group_key r) rs)"

text \<open>\<^verbatim>\<open>ORDER BY min(distance)\<close> on the grouped rows.\<close>

definition ring_query :: "address_row list \<Rightarrow> nat \<Rightarrow> nat \<Rightarrow> address_row list" where
  "ring_query joined radius limit =
     sort_key distance (group_rows (subquery_rows joined radius limit))"

section \<open>The address parser response\<close>

text \<open>
  \<^verbatim>\<open>parsed_address\<close> is a Python dict from field names to strings; a key is
  present when \<open>map_of\<close> finds it.
\<close>

type_synonym parsed_address = "(string \<times> string) list"

text \<open>
  What \<^verbatim>\<open>post(url + '/split', json={"query": search_term})\<close> does: it returns a
  response with a status code and a body, or it raises. The body is either not JSON or a
  JSON array of objects, the shape the service documents.
\<close>

datatype json_body = NotJson | JsonArray "parsed_address list"

datatype http_outcome = Responded nat json_body | Raised error

section \<open>External services\<close>

text \<open>
  What the geocoder calls and does not define: the two \<^verbatim>\<open>pyproj.transform\<close>
  directions on floats of type \<open>'f\<close> and Python's rendering of a float by
  \<^verbatim>\<open>str.format\<close>; the database behind \<^verbatim>\<open>self.db\<close> (for the ring query the
  joined rows around a projected point with their distances, for the forward query the
  rows the cursor yields for a statement and its parameters, or in both cases the
  exception of \<^verbatim>\<open>cursor.execute\<close>); \<^verbatim>\<open>self.formatter.format\<close> on both kinds of
  row; \<^verbatim>\<open>shapely.wkb.loads\<close> on the \<^verbatim>\<open>location\<close> column, as the pair
  \<^verbatim>\<open>(p.x, p.y)\<close>; the parser service; and the table names of
  \<^verbatim>\<open>self.config['tables']\<close>.
\<close>

datatype strategy = PostcodeBased | CityBased | RoadOnly

text \<open>
  The statement handed to \<^verbatim>\<open>cursor.execute(query, v)\<close>: the text of
  \<^verbatim>\<open>query\<close> after \<^verbatim>\<open>.format\<close>, kept clause by clause as lines without their
  indentation, the parameter list \<^verbatim>\<open>v\<close>, and the branch of the
  \<^verbatim>\<open>if / elif / else\<close> that produced the text.
\<close>

record statement =
  strategy :: strategy
  select_list :: "string list"
  from_clause :: "string list"
  where_clause :: "string list"
  order_by :: string
  limit_clause :: string
  parameters :: "string list"

record ('f, 'row) services =
  to_mercator :: "'f \<Rightarrow> 'f \<Rightarrow> 'f \<times> 'f"
  to_latlon :: "'f \<Rightarrow> 'f \<Rightarrow> 'f \<times> 'f"
  str_float :: "'f \<Rightarrow> string"
  joined_rows :: "'f \<times> 'f \<Rightarrow> error + address_row list"
  format_address :: "address_row \<Rightarrow> string"
  post_split :: "string \<Rightarrow> http_outcome"
  cursor_execute :: "statement \<Rightarrow> error + 'row list"
  format_row :: "'row \<Rightarrow> string"
  loads_location :: "'row \<Rightarrow> 'f \<times> 'f"
  postcode_table :: string
  buildings_table :: string
  admin_table :: string

section \<open>Reverse geocoding\<close>

text \<open>
  \<^verbatim>\<open>_fetch_address\<close> is a generator: it executes the query and yields each row of
  the cursor. The rows are Python values, so a yielded item is \<open>Some row\<close> and Python's
  \<^verbatim>\<open>None\<close> is \<open>None\<close>.
\<close>

definition fetch_address ::
  "('f, 'row) services \<Rightarrow> 'f \<times> 'f \<Rightarrow> nat \<Rightarrow> nat \<Rightarrow> error + address_row option list" where
  "fetch_address sv center radius limit =
     (case joined_rows sv center of
        Inl e \<Rightarrow> Inl e
      | Inr joined \<Rightarrow> Inr (map Some (ring_query joined radius limit)))"

text \<open>
  \<^verbatim>\<open>next(generator)\<close> with no default: the first yielded item, and
  \<open>StopIteration\<close> when the generator yields nothing.
\<close>

fun next_item :: "error + 'a list \<Rightarrow> error + 'a" where
  "next_item (Inl e) = Inl e"
| "next_item (Inr []) = Inl StopIteration"
| "next_item (Inr (x # xs)) = Inr x"

text \<open>
  The loop \<^verbatim>\<open>for radius in [25, 50, 100]\<close> of \<^verbatim>\<open>reverse\<close>. The last argument
  is the list of radii queried so far; the result is the returned value (\<open>None\<close> when the
  loop falls through, which returns Python's \<^verbatim>\<open>None\<close>) or the exception raised,
  with the radii queried.
\<close>

fun reverse_loop ::
  "('f, 'row) services \<Rightarrow> 'f \<times> 'f \<Rightarrow> nat \<Rightarrow> nat list \<Rightarrow> nat list
     \<Rightarrow> (error + string option) \<times> nat list" where
  "reverse_loop sv center limit [] queried = (Inr None, queried)"
| "reverse_loop sv center limit (radius # radii) queried =
     (case next_item (fetch_address sv center radius limit) of
        Inl e \<Rightarrow> (Inl e, queried @ [radius])
      | Inr item \<Rightarrow>
          (case item of
             Some row \<Rightarrow> (Inr (Some (format_address sv row)), queried @ [radius])
           | None \<Rightarrow> reverse_loop sv center limit radii (queried @ [radius])))"

definition reverse ::
  "('f, 'row) services \<Rightarrow> 'f \<Rightarrow> 'f \<Rightarrow> nat \<Rightarrow> (error + string option) \<times> nat list" where
  "reverse sv lat lon limit =
     reverse_loop sv (to_mercator sv lon lat) limit [25, 50, 100] []"

section \<open>Forward geocoding\<close>

subsection \<open>The parse step\<close>

text \<open>
  The \<^verbatim>\<open>try\<close> block of \<^verbatim>\<open>_fetch_coordinate\<close>: status 200 takes the first
  element of the decoded body, any other status gives \<^verbatim>\<open>{'road': search_term}\<close>,
  and \<^verbatim>\<open>except ConnectionError\<close> gives the same dict. Every other exception,
  also one raised by \<^verbatim>\<open>response.json()[0]\<close>, leaves the function.
\<close>

definition parse_address :: "http_outcome \<Rightarrow> string \<Rightarrow> error + parsed_address" where
  "parse_address outcome search_term =
     (case outcome of
        Raised e \<Rightarrow>
          (if e = ConnectionError then Inr [(''road'', search_term)] else Inl e)
      | Responded status_code body \<Rightarrow>
          (if status_code = 200
           then (case body of
                   NotJson \<Rightarrow> Inl JSONDecodeError
                 | JsonArray [] \<Rightarrow> Inl IndexError
                 | JsonArray (first # rest) \<Rightarrow> Inr first)
           else Inr [(''road'', search_term)]))"

subsection \<open>The query builder\<close>

text \<open>\<^verbatim>\<open>sep.join(parts)\<close>.\<close>

fun join :: "string \<Rightarrow> string list \<Rightarrow> string" where
  "join sep [] = []"
| "join sep [x] = x"
| "join sep (x # y # ys) = x @ sep @ join sep (y # ys)"

text \<open>\<^verbatim>\<open>xs.insert(i, x)\<close>, which clips the index to the length of the list.\<close>

definition list_insert :: "nat \<Rightarrow> 'a \<Rightarrow> 'a list \<Rightarrow> 'a list" where
  "list_insert i x xs = take i xs @ x # drop i xs"

text \<open>The decimal rendering of \<^verbatim>\<open>limit\<close> by \<^verbatim>\<open>str.format\<close>.\<close>

fun str_nat :: "nat \<Rightarrow> string" where
  "str_nat n =
     (if n < 10 then [''0123456789'' ! n]
      else str_nat (n div 10) @ [''0123456789'' ! (n mod 10)])"

declare str_nat.simps [simp del]

text \<open>
  The loop over \<^verbatim>\<open>['road', 'house_number']\<close>: the lists \<^verbatim>\<open>q\<close> and
  \<^verbatim>\<open>v\<close> after it.
\<close>

fun where_parts :: "string list \<Rightarrow> parsed_address \<Rightarrow> string list \<times> string list" where
  "where_parts [] parsed_address = ([], [])"
| "where_parts (query_part # parts) parsed_address =
     (case map_of parsed_address query_part of
        None \<Rightarrow> where_parts parts parsed_address
      | Some val \<Rightarrow>
          (case where_parts parts parsed_address of
             (q, v) \<Rightarrow> ((''b.'' @ query_part @ '' %% %s'') # q, val # v)))"

text \<open>The three templates, with the names of their \<^verbatim>\<open>format\<close> arguments.\<close>

definition order_by_line :: "string \<Rightarrow> string" where
  "order_by_line order_by_distance = ''ORDER BY '' @ order_by_distance @ '' trgm_dist DESC''"

definition limit_line :: "nat \<Rightarrow> string" where
  "limit_line limit = ''LIMIT '' @ str_nat limit @ '';''"

definition postcode_query ::
  "('f, 'row) services \<Rightarrow> string \<Rightarrow> string \<Rightarrow> string \<Rightarrow> string \<Rightarrow> nat \<Rightarrow> string list \<Rightarrow> statement" where
  "postcode_query sv trgm_dist distance_column where_text order_by_distance limit v =
     \<lparr>strategy = PostcodeBased,
      select_list =
        [''b.*,'', ''pc.postcode,'', ''a.name as city,'', trgm_dist @ '','',
         ''ST_Centroid(b.geometry) as location'', distance_column],
      from_clause =
        [''FROM '' @ postcode_table sv @ '' pc'',
         ''JOIN '' @ buildings_table sv @ '' b'',
         ''ON ST_Contains(pc.geometry, ST_Centroid(b.geometry))'',
         ''LEFT JOIN '' @ admin_table sv @ '' a'',
         ''ON (a.admin_level = 6 AND ST_Contains(a.geometry, ST_Centroid(b.geometry)))''],
      where_clause = [''pc.postcode = %s'', ''AND ('' @ where_text @ '')''],
      order_by = order_by_line order_by_distance,
      limit_clause = limit_line limit,
      parameters = v\<rparr>"

definition city_query ::
  "('f, 'row) services \<Rightarrow> string \<Rightarrow> string \<Rightarrow> string \<Rightarrow> string \<Rightarrow> nat \<Rightarrow> string list \<Rightarrow> statement" where
  "city_query sv trgm_dist distance_column where_text order_by_distance limit v =
     \<lparr>strategy = CityBased,
      select_list =
        [''b.*,'', ''a.name as city,'', ''pc.postcode,'', trgm_dist @ '','',
         ''ST_Centroid(b.geometry) as location'', distance_column],
      from_clause =
        [''FROM '' @ admin_table sv @ '' a'',
         ''JOIN '' @ buildings_table sv @ '' b'',
         ''ON ST_Contains(a.geometry, ST_Centroid(b.geometry))'',
         ''LEFT JOIN '' @ postcode_table sv @ '' pc'',
         ''ON ST_Contains(pc.geometry, ST_Centroid(b.geometry))''],
      where_clause = [''a.name %% %s'', ''AND a.admin_level = 6'', ''AND ('' @ where_text @ '')''],
      order_by = order_by_line order_by_distance,
      limit_clause = limit_line limit,
      parameters = v\<rparr>"

definition road_query ::
  "('f, 'row) services \<Rightarrow> string \<Rightarrow> string \<Rightarrow> string \<Rightarrow> string \<Rightarrow> nat \<Rightarrow> string list \<Rightarrow> statement" where
  "road_query sv trgm_dist distance_column where_text order_by_distance limit v =
     \<lparr>strategy = RoadOnly,
      select_list =
        [''b.*,'', ''pc.postcode,'', ''a.name as city,'', trgm_dist @ '','',
         ''ST_Centroid(b.geometry) as location'', distance_column],
      from_clause =
        [''FROM '' @ buildings_table sv @ '' b'',
         ''LEFT JOIN '' @ postcode_table sv @ '' pc'',
         ''ON ST_Contains(pc.geometry, ST_Centroid(b.geometry))'',
         ''LEFT JOIN '' @ admin_table sv @ '' a'',
         ''ON (a.admin_level = 6 AND ST_Contains(a.geometry, ST_Centroid(b.geometry)))''],
      where_clause = [where_text],
      order_by = order_by_line order_by_distance,
      limit_clause = limit_line limit,
      parameters = v\<rparr>"

text \<open>The text of the statement, line by line.\<close>

definition sql_text :: "statement \<Rightarrow> string list" where
  "sql_text st =
     [''SELECT''] @ select_list st @ from_clause st @ [''WHERE''] @ where_clause st
       @ [order_by st, limit_clause st]"

text \<open>
  The query builder of \<^verbatim>\<open>_fetch_coordinate\<close>, from \<^verbatim>\<open>q = []\<close> to the end of
  the \<^verbatim>\<open>if / elif / else\<close>.
\<close>

definition build_query ::
  "('f, 'row) services \<Rightarrow> parsed_address \<Rightarrow> ('f \<times> 'f) option \<Rightarrow> nat \<Rightarrow> statement" where
  "build_query sv parsed_address center limit =
     (case where_parts [''road'', ''house_number''] parsed_address of (q, v0) \<Rightarrow>
      (case (case map_of parsed_address ''road'' of
               Some r \<Rightarrow> (''road <-> %s as trgm_dist'', list_insert 0 r v0)
             | None \<Rightarrow> (''0 as trgm_dist'', v0)) of (trgm_dist, v) \<Rightarrow>
      (case (case center of
               None \<Rightarrow> ([], [])
             | Some (x, y) \<Rightarrow>
                 ('', ST_Distance(ST_Centroid(b.geometry), ST_GeomFromText('POINT(''
                    @ str_float sv x @ '' '' @ str_float sv y @ '')', 3857)) as dist'',
                  ''dist ASC,'')) of (distance_column, order_by_distance) \<Rightarrow>
      (case map_of parsed_address ''postcode'' of
         Some pc \<Rightarrow>
           postcode_query sv trgm_dist distance_column (join '' AND '' q) order_by_distance limit
             (if map_of parsed_address ''road'' \<noteq> None
              then list_insert 1 pc v else list_insert 0 pc v)
       | None \<Rightarrow>
           (case map_of parsed_address ''city'' of
              Some c \<Rightarrow>
                city_query sv trgm_dist distance_column (join '' AND '' q) order_by_distance limit
                  (if map_of parsed_address ''road'' \<noteq> None
                   then list_insert 1 c v else list_insert 0 c v)
            | None \<Rightarrow>
                road_query sv trgm_dist distance_column (join '' AND '' q) order_by_distance
                  limit v)))))"

subsection \<open>\<^verbatim>\<open>_fetch_coordinate\<close> and \<^verbatim>\<open>forward\<close>\<close>

definition fetch_coordinate ::
  "('f, 'row) services \<Rightarrow> string \<Rightarrow> ('f \<times> 'f) option \<Rightarrow> string option \<Rightarrow> nat
     \<Rightarrow> error + 'row list" where
  "fetch_coordinate sv search_term center country limit =
     (case parse_address (post_split sv search_term) search_term of
        Inl e \<Rightarrow> Inl e
      | Inr parsed_address \<Rightarrow> cursor_execute sv (build_query sv parsed_address center limit))"

text \<open>
  \<^verbatim>\<open>forward\<close>: \<^verbatim>\<open>center\<close> is a pair whose second component goes first into
  the projection, \<^verbatim>\<open>_fetch_coordinate\<close> runs with its default limit 20, and each row
  becomes \<^verbatim>\<open>(name, lat, lon)\<close>.
\<close>

definition forward ::
  "('f, 'row) services \<Rightarrow> string \<Rightarrow> string option \<Rightarrow> ('f \<times> 'f) option
     \<Rightarrow> error + (string \<times> 'f \<times> 'f) list" where
  "forward sv address country center =
     (let merc_coordinate =
            (case center of
               None \<Rightarrow> None
             | Some (c0, c1) \<Rightarrow> Some (to_mercator sv c1 c0))
      in case fetch_coordinate sv address merc_coordinate country 20 of
           Inl e \<Rightarrow> Inl e
         | Inr rows \<Rightarrow>
             Inr (map (\<lambda>coordinate.
                        (case loads_location sv coordinate of (px, py) \<Rightarrow>
                         (case to_latlon sv px py of (lon, lat) \<Rightarrow>
                            (format_row sv coordinate, lat, lon))))
                      rows))"


section \<open>The ORDER BY clause as an order on rows\<close>

text \<open>
  The ORDER BY line of the three templates is read back the way the database reads it:
  the text after \<^verbatim>\<open>ORDER BY\<close> is a comma-separated list of sort items, each a
  column name with an optional direction, ascending when none is given. The two
  columns the templates can name are the computed columns \<^verbatim>\<open>dist\<close> and
  \<^verbatim>\<open>trgm_dist\<close>.
\<close>

datatype direction = ASC | DESC

datatype sort_column = Dist | TrgmDist

fun split_on :: "char \<Rightarrow> string \<Rightarrow> string list" where
  "split_on c [] = [[]]"
| "split_on c (x # xs) =
     (if x = c then [] # split_on c xs
      else (case split_on c xs of
              [] \<Rightarrow> [[x]]
            | w # ws \<Rightarrow> (x # w) # ws))"

definition sql_words :: "string \<Rightarrow> string list" where
  "sql_words s = filter (\<lambda>w. w \<noteq> []) (split_on CHR '' '' s)"

definition sort_column_of :: "string \<Rightarrow> sort_column option" where
  "sort_column_of name =
     (if name = ''dist'' then Some Dist
      else if name = ''trgm_dist'' then Some TrgmDist else None)"

fun sort_item :: "string list \<Rightarrow> (sort_column \<times> direction) option" where
  "sort_item [name] = map_option (\<lambda>c. (c, ASC)) (sort_column_of name)"
| "sort_item [name, d] =
     (if d = ''ASC'' then map_option (\<lambda>c. (c, ASC)) (sort_column_of name)
      else if d = ''DESC'' then map_option (\<lambda>c. (c, DESC)) (sort_column_of name)
      else None)"
| "sort_item ws = None"

definition sort_keys :: "string \<Rightarrow> (sort_column \<times> direction) list option" where
  "sort_keys line =
     (if take 9 line = ''ORDER BY ''
      then those (map (\<lambda>item. sort_item (sql_words item)) (split_on CHR '','' (drop 9 line)))
      else None)"

text \<open>
  A candidate row of the forward query, with the values of its two computed columns
  (\<open>dist_value\<close> is only selected when a center is given).
\<close>

record candidate =
  label :: string
  dist_value :: real
  trgm_dist_value :: real

fun column_value :: "sort_column \<Rightarrow> candidate \<Rightarrow> real" where
  "column_value Dist r = dist_value r"
| "column_value TrgmDist r = trgm_dist_value r"

text \<open>
  \<open>precedes keys a b\<close>: row \<open>a\<close> sorts strictly before row \<open>b\<close>, the first key on
  which they differ deciding.
\<close>

fun precedes :: "(sort_column \<times> direction) list \<Rightarrow> candidate \<Rightarrow> candidate \<Rightarrow> bool" where
  "precedes [] a b = False"
| "precedes ((c, d) # keys) a b =
     (if column_value c a = column_value c b then precedes keys a b
      else (case d of
              ASC \<Rightarrow> column_value c a < column_value c b
            | DESC \<Rightarrow> column_value c b < column_value c a))"

fun insert_row ::
  "(sort_column \<times> direction) list \<Rightarrow> candidate \<Rightarrow> candidate list \<Rightarrow> candidate list" where
  "insert_row keys x [] = [x]"
| "insert_row keys x (y # ys) =
     (if precedes keys y x then y # insert_row keys x ys else x # y # ys)"

definition order_rows ::
  "(sort_column \<times> direction) list \<Rightarrow> candidate list \<Rightarrow> candidate list" where
  "order_rows keys rows = foldr (insert_row keys) rows []"

text \<open>
  The order in which the statement built for an address yields the matching rows:
  \<open>None\<close> if its ORDER BY line does not read as a list of sort items.
\<close>

definition ranked ::
  "('f, 'row) services \<Rightarrow> parsed_address \<Rightarrow> ('f \<times> 'f) option \<Rightarrow> nat \<Rightarrow> candidate list
     \<Rightarrow> candidate list option" where
  "ranked sv parsed_address center limit rows =
     map_option (\<lambda>keys. order_rows keys rows)
       (sort_keys (order_by (build_query sv parsed_address center limit)))"

section \<open>Example inputs\<close>

text \<open>
  A building on a given road at a given distance, and services whose parser answers
  every query with one outcome, whose database holds the given joined rows and answers
  a forward statement with its parameters as rows, and whose projections are the
  identity.
\<close>

definition example_row :: "string \<Rightarrow> real \<Rightarrow> address_row" where
  "example_row name d =
     \<lparr>house = None, road = Some name, house_number = Some ''5'',
      postcode = Some ''10115'', city = Some ''Berlin'', distance = d\<rparr>"

definition example_services :: "http_outcome \<Rightarrow> address_row list \<Rightarrow> (real, string) services" where
  "example_services outcome joined =
     \<lparr>to_mercator = (\<lambda>lon lat. (lon, lat)),
      to_latlon = (\<lambda>x y. (x, y)),
      str_float = (\<lambda>x. ''0.0''),
      joined_rows = (\<lambda>center. Inr joined),
      format_address = (\<lambda>r. case road r of Some s \<Rightarrow> s | None \<Rightarrow> []),
      post_split = (\<lambda>search_term. outcome),
      cursor_execute = (\<lambda>st. Inr (parameters st)),
      format_row = (\<lambda>r. r),
      loads_location = (\<lambda>r. (0, 0)),
      postcode_table = ''postcode'',
      buildings_table = ''buildings'',
      admin_table = ''admin''\<rparr>"

definition example_candidate :: "string \<Rightarrow> real \<Rightarrow> real \<Rightarrow> candidate" where
  "example_candidate name d t = \<lparr>label = name, dist_value = d, trgm_dist_value = t\<rparr>"

section \<open>Properties of the ring query\<close>








section \<open>Properties of \<^verbatim>\<open>reverse\<close>\<close>

lemma reverse_empty_first_ring:
  assumes "joined_rows sv (to_mercator sv lon lat) = Inr joined"
    and "ring_query joined 25 limit = []"
  shows "reverse sv lat lon limit = (Inl StopIteration, [25])"
  using assms by (simp add: reverse_def fetch_address_def)

lemma reverse_first_ring_hit:
  assumes "joined_rows sv (to_mercator sv lon lat) = Inr joined"
    and "ring_query joined 25 limit = row # rows"
  shows "reverse sv lat lon limit = (Inr (Some (format_address sv row)), [25])"
  using assms by (simp add: reverse_def fetch_address_def)

text \<open>
  C1. The fixture of the claim: one building at distance 30 and one at distance 70, so
  that the ring query is empty at radius 25, has one grouped row at radius 50 and two
  at radius 100. The claim expects the radius-50 row after two queries;
  \<^verbatim>\<open>reverse\<close> raises \<open>StopIteration\<close> after the single query at radius 25,
  because \<^verbatim>\<open>next\<close> has no default.
\<close>

theorem reverse_raises_on_empty_radius_25:
  "fetch_address (example_services (Raised ConnectionError)
       [example_row ''A'' 30, example_row ''B'' 70]) (0, 0) 25 10 = Inr [] \<and>
   fetch_address (example_services (Raised ConnectionError)
       [example_row ''A'' 30, example_row ''B'' 70]) (0, 0) 50 10
     = Inr [Some (example_row ''A'' 30)] \<and>
   fetch_address (example_services (Raised ConnectionError)
       [example_row ''A'' 30, example_row ''B'' 70]) (0, 0) 100 10
     = Inr [Some (example_row ''A'' 30), Some (example_row ''B'' 70)] \<and>
   reverse (example_services (Raised ConnectionError)
       [example_row ''A'' 30, example_row ''B'' 70]) 0 0 10
     = (Inl StopIteration, [25])"
  by (simp add: reverse_def fetch_address_def example_services_def ring_query_def
      subquery_rows_def example_row_def group_key_def)

text \<open>
  C2. With no building within 100 units of the point the ring queries at 25, 50 and 100
  are all empty. The claim expects the absent value and no error; \<^verbatim>\<open>reverse\<close>
  raises \<open>StopIteration\<close> at radius 25.
\<close>

theorem reverse_raises_when_nothing_in_range:
  "fetch_address (example_services (Raised ConnectionError) [example_row ''A'' 500])
       (0, 0) 25 10 = Inr [] \<and>
   fetch_address (example_services (Raised ConnectionError) [example_row ''A'' 500])
       (0, 0) 50 10 = Inr [] \<and>
   fetch_address (example_services (Raised ConnectionError) [example_row ''A'' 500])
       (0, 0) 100 10 = Inr [] \<and>
   reverse (example_services (Raised ConnectionError) [example_row ''A'' 500]) 0 0 10
     = (Inl StopIteration, [25])"
  by (simp add: reverse_def fetch_address_def example_services_def ring_query_def
      subquery_rows_def example_row_def group_key_def)

section \<open>Properties of the ORDER BY clause\<close>

lemma precedes_asym: "precedes keys a b \<Longrightarrow> \<not> precedes keys b a"
  by (induction keys) (auto split: direction.splits if_splits)

lemma not_precedes_trans:
  "\<not> precedes keys b a \<Longrightarrow> \<not> precedes keys c b \<Longrightarrow> \<not> precedes keys c a"
  by (induction keys) (auto split: direction.splits if_splits)

lemma set_insert_row: "set (insert_row keys x ys) = insert x (set ys)"
  by (induction ys) auto

lemma mset_insert_row: "mset (insert_row keys x ys) = add_mset x (mset ys)"
  by (induction ys) auto

lemma sorted_insert_row:
  "sorted_wrt (\<lambda>a b. \<not> precedes keys b a) ys
     \<Longrightarrow> sorted_wrt (\<lambda>a b. \<not> precedes keys b a) (insert_row keys x ys)"
proof (induction ys)
  case Nil
  show ?case by simp
next
  case (Cons y ys)
  show ?case
  proof (cases "precedes keys y x")
    case True
    then have "\<not> precedes keys x y" by (rule precedes_asym)
    with True Cons show ?thesis by (auto simp: set_insert_row)
  next
    case False
    have "\<forall>z \<in> set ys. \<not> precedes keys z x"
    proof
      fix z assume "z \<in> set ys"
      with Cons.prems have "\<not> precedes keys z y" by simp
      with False show "\<not> precedes keys z x" by (rule not_precedes_trans)
    qed
    with False Cons.prems show ?thesis by simp
  qed
qed

lemma order_rows_sorted: "sorted_wrt (\<lambda>a b. \<not> precedes keys b a) (order_rows keys rows)"
  unfolding order_rows_def by (induction rows) (simp_all add: sorted_insert_row)

lemma order_rows_mset: "mset (order_rows keys rows) = mset rows"
  unfolding order_rows_def by (induction rows) (simp_all add: mset_insert_row)

lemma order_by_build:
  "order_by (build_query sv pa center limit)
     = order_by_line (case center of None \<Rightarrow> [] | Some c \<Rightarrow> ''dist ASC,'')"
  by (simp add: build_query_def postcode_query_def city_query_def road_query_def
      split: prod.splits option.splits)

lemma sort_keys_without_center: "sort_keys (order_by_line []) = Some [(TrgmDist, DESC)]"
  by (simp add: sort_keys_def order_by_line_def sql_words_def sort_column_of_def)

lemma sort_keys_with_center:
  "sort_keys (order_by_line ''dist ASC,'') = Some [(Dist, ASC), (TrgmDist, DESC)]"
  by (simp add: sort_keys_def order_by_line_def sql_words_def sort_column_of_def)

lemma sorted_wrt_trgm:
  "sorted_wrt (\<lambda>a b. \<not> precedes [(TrgmDist, DESC)] b a) xs
     = sorted_wrt (\<lambda>a b. trgm_dist_value b \<le> trgm_dist_value a) xs"
  by (rule arg_cong[where f="\<lambda>P. sorted_wrt P xs"]) (auto simp: fun_eq_iff)

lemma sorted_wrt_dist_trgm:
  "sorted_wrt (\<lambda>a b. \<not> precedes [(Dist, ASC), (TrgmDist, DESC)] b a) xs
     = sorted_wrt (\<lambda>a b. dist_value a < dist_value b
          \<or> (dist_value a = dist_value b \<and> trgm_dist_value b \<le> trgm_dist_value a)) xs"
  by (rule arg_cong[where f="\<lambda>P. sorted_wrt P xs"]) (auto simp: fun_eq_iff)

text \<open>
  C5. Without a center the ORDER BY line of every built statement is the descending
  \<^verbatim>\<open>trgm_dist\<close> key alone, and the rows come out as a rearrangement of the matching
  rows in descending order of that column. With a center the ascending \<^verbatim>\<open>dist\<close>
  key stands before the descending \<^verbatim>\<open>trgm_dist\<close> key, which is last: rows come out
  by ascending distance, rows at the same distance by descending \<^verbatim>\<open>trgm_dist\<close>.
\<close>

theorem ranking_order:
  "order_by (build_query sv pa None limit) = ''ORDER BY  trgm_dist DESC'' \<and>
   order_by (build_query sv pa (Some c) limit) = ''ORDER BY dist ASC, trgm_dist DESC'' \<and>
   (\<exists>ordered. ranked sv pa None limit rows = Some ordered \<and> mset ordered = mset rows \<and>
      sorted_wrt (\<lambda>a b. trgm_dist_value b \<le> trgm_dist_value a) ordered) \<and>
   (\<exists>ordered. ranked sv pa (Some c) limit rows = Some ordered \<and> mset ordered = mset rows \<and>
      sorted_wrt (\<lambda>a b. dist_value a < dist_value b
         \<or> (dist_value a = dist_value b \<and> trgm_dist_value b \<le> trgm_dist_value a)) ordered)"
proof -
  have text_none: "order_by (build_query sv pa None limit) = ''ORDER BY  trgm_dist DESC''"
    by (simp add: order_by_build order_by_line_def)
  have text_some: "order_by (build_query sv pa (Some c) limit) = ''ORDER BY dist ASC, trgm_dist DESC''"
    by (simp add: order_by_build order_by_line_def)
  have "ranked sv pa None limit rows = Some (order_rows [(TrgmDist, DESC)] rows)"
    by (simp add: ranked_def order_by_build sort_keys_without_center)
  moreover have "sorted_wrt (\<lambda>a b. trgm_dist_value b \<le> trgm_dist_value a)
                   (order_rows [(TrgmDist, DESC)] rows)"
    using order_rows_sorted[of "[(TrgmDist, DESC)]" rows] by (simp only: sorted_wrt_trgm)
  ultimately have none: "\<exists>ordered. ranked sv pa None limit rows = Some ordered \<and> mset ordered = mset rows \<and>
      sorted_wrt (\<lambda>a b. trgm_dist_value b \<le> trgm_dist_value a) ordered"
    by (simp add: order_rows_mset)
  have "ranked sv pa (Some c) limit rows = Some (order_rows [(Dist, ASC), (TrgmDist, DESC)] rows)"
    by (simp add: ranked_def order_by_build sort_keys_with_center)
  moreover have "sorted_wrt (\<lambda>a b. dist_value a < dist_value b
         \<or> (dist_value a = dist_value b \<and> trgm_dist_value b \<le> trgm_dist_value a))
                   (order_rows [(Dist, ASC), (TrgmDist, DESC)] rows)"
    using order_rows_sorted[of "[(Dist, ASC), (TrgmDist, DESC)]" rows]
    by (simp only: sorted_wrt_dist_trgm)
  ultimately have some: "\<exists>ordered. ranked sv pa (Some c) limit rows = Some ordered \<and> mset ordered = mset rows \<and>
      sorted_wrt (\<lambda>a b. dist_value a < dist_value b
         \<or> (dist_value a = dist_value b \<and> trgm_dist_value b \<le> trgm_dist_value a)) ordered"
    by (simp add: order_rows_mset)
  from text_none text_some none some show ?thesis by blast
qed

text \<open>
  Of two candidates whose \<^verbatim>\<open>trgm_dist\<close> values are 0.4 and 0.9, with no center,
  the one with 0.9 ranks first.
\<close>

theorem ranking_order_witness:
  "ranked (example_services (Raised ConnectionError) []) [(''road'', ''Main St'')] None 20
       [example_candidate ''low'' 0 0.4, example_candidate ''high'' 0 0.9]
     = Some [example_candidate ''high'' 0 0.9, example_candidate ''low'' 0 0.4] \<and>
   order_by (build_query (example_services (Raised ConnectionError) [])
       [(''road'', ''Main St'')] None 20) = ''ORDER BY  trgm_dist DESC''"
proof -
  have "ranked (example_services (Raised ConnectionError) []) [(''road'', ''Main St'')] None 20
       [example_candidate ''low'' 0 0.4, example_candidate ''high'' 0 0.9]
     = Some [example_candidate ''high'' 0 0.9, example_candidate ''low'' 0 0.4]"
    by (simp add: ranked_def order_by_build sort_keys_without_center order_rows_def
        example_candidate_def)
  with ranking_order[of "example_services (Raised ConnectionError) []"
      "[(''road'', ''Main St'')]" 20 "(0, 0)"
      "[example_candidate ''low'' 0 0.4, example_candidate ''high'' 0 0.9]"]
  show ?thesis by blast
qed


section \<open>Properties of the query builder\<close>

lemma str_nat_20: "str_nat 20 = ''20''"
  by (simp add: str_nat.simps[of 20] str_nat.simps[of 2])

text \<open>
  C6. For a parsed address with no field at all and no center, the builder takes the
  road-only template with no parameter and the constant ranking expression, and the text
  it hands to \<^verbatim>\<open>cursor.execute\<close> has nothing between the keyword
  \<^verbatim>\<open>WHERE\<close> and \<^verbatim>\<open>ORDER BY\<close>: the statement is
  \<^verbatim>\<open>... WHERE ORDER BY  trgm_dist DESC LIMIT 20;\<close>, which is not a complete SQL
  statement, so that executing it is an error of the database and not an unfiltered scan.
  The same holds for an address whose only fields are other than road, house number,
  postcode and city.
\<close>

theorem empty_address_statement:
  "sql_text (build_query sv [] None 20) =
     [''SELECT'', ''b.*,'', ''pc.postcode,'', ''a.name as city,'', ''0 as trgm_dist,'',
      ''ST_Centroid(b.geometry) as location'', [],
      ''FROM '' @ buildings_table sv @ '' b'',
      ''LEFT JOIN '' @ postcode_table sv @ '' pc'',
      ''ON ST_Contains(pc.geometry, ST_Centroid(b.geometry))'',
      ''LEFT JOIN '' @ admin_table sv @ '' a'',
      ''ON (a.admin_level = 6 AND ST_Contains(a.geometry, ST_Centroid(b.geometry)))'',
      ''WHERE'', [], ''ORDER BY  trgm_dist DESC'', ''LIMIT 20;''] \<and>
   where_clause (build_query sv [] None 20) = [[]] \<and>
   where_clause (build_query sv [(''country'', ''germany'')] None 20) = [[]] \<and>
   parameters (build_query sv [] None 20) = [] \<and>
   strategy (build_query sv [] None 20) = RoadOnly"
  by (simp add: build_query_def road_query_def sql_text_def order_by_line_def limit_line_def
      str_nat_20)

text \<open>
  C4. The builder selects its template by first match: the postcode template (FROM the
  postcode table, filter \<^verbatim>\<open>pc.postcode = %s\<close>) whenever \<^verbatim>\<open>postcode\<close> is a
  key of the parsed address, whatever else is; the city template (FROM the admin table,
  filter \<^verbatim>\<open>a.name %% %s\<close>) when \<^verbatim>\<open>city\<close> is a key and
  \<^verbatim>\<open>postcode\<close> is not; the road-only template (FROM the buildings table) when
  neither is.
\<close>

theorem strategy_selection:
  "(map_of pa ''postcode'' \<noteq> None \<longrightarrow>
      strategy (build_query sv pa center limit) = PostcodeBased \<and>
      hd (from_clause (build_query sv pa center limit)) = ''FROM '' @ postcode_table sv @ '' pc'' \<and>
      hd (where_clause (build_query sv pa center limit)) = ''pc.postcode = %s'') \<and>
   (map_of pa ''postcode'' = None \<and> map_of pa ''city'' \<noteq> None \<longrightarrow>
      strategy (build_query sv pa center limit) = CityBased \<and>
      hd (from_clause (build_query sv pa center limit)) = ''FROM '' @ admin_table sv @ '' a'' \<and>
      hd (where_clause (build_query sv pa center limit)) = ''a.name %% %s'') \<and>
   (map_of pa ''postcode'' = None \<and> map_of pa ''city'' = None \<longrightarrow>
      strategy (build_query sv pa center limit) = RoadOnly \<and>
      hd (from_clause (build_query sv pa center limit)) = ''FROM '' @ buildings_table sv @ '' b'')"
  by (auto simp add: build_query_def postcode_query_def city_query_def road_query_def
      split: prod.splits option.splits)

text \<open>
  An address with road, city and postcode selects the postcode template, one with road
  and city the city template, one with a road only the road-only template.
\<close>

theorem strategy_selection_witness:
  "strategy (build_query (example_services (Raised ConnectionError) [])
      [(''road'', ''Main St''), (''city'', ''Berlin''), (''postcode'', ''10115'')] None 20)
     = PostcodeBased \<and>
   strategy (build_query (example_services (Raised ConnectionError) [])
      [(''road'', ''Main St''), (''city'', ''Berlin'')] None 20) = CityBased \<and>
   strategy (build_query (example_services (Raised ConnectionError) [])
      [(''road'', ''Main St'')] None 20) = RoadOnly"
  using
    strategy_selection[of "[(''road'', ''Main St''), (''city'', ''Berlin''), (''postcode'', ''10115'')]"
      "example_services (Raised ConnectionError) []" None 20]
    strategy_selection[of "[(''road'', ''Main St''), (''city'', ''Berlin'')]"
      "example_services (Raised ConnectionError) []" None 20]
    strategy_selection[of "[(''road'', ''Main St'')]"
      "example_services (Raised ConnectionError) []" None 20]
  by simp

section \<open>Properties of \<^verbatim>\<open>forward\<close>\<close>

text \<open>
  C8. Two runs of \<^verbatim>\<open>forward\<close> (and of \<^verbatim>\<open>_fetch_coordinate\<close>) that differ
  only in the \<^verbatim>\<open>country\<close> argument give the same result; the query builder does
  not take the argument at all.
\<close>

theorem country_noninterference:
  "forward sv address country1 center = forward sv address country2 center \<and>
   fetch_coordinate sv address merc_coordinate country1 limit
     = fetch_coordinate sv address merc_coordinate country2 limit"
  by (simp add: forward_def fetch_coordinate_def)

text \<open>
  An exception of the call that is not a \<open>ConnectionError\<close>, and a body that is
  not JSON under status 200, leave the parse step as they are.
\<close>

lemma parse_address_propagates:
  "parse_address (Raised OtherRequestError) q = Inl OtherRequestError"
  "parse_address (Responded 200 NotJson) q = Inl JSONDecodeError"
  by (simp_all add: parse_address_def)

text \<open>
  C3, as the code has it. The fallback is bound to one exception class and to the status:
  when the call to the parser service raises \<open>ConnectionError\<close>, the class under
  which the HTTP library reports a failed connection, or answers with a status other
  than 200 (so with any non-success status), the parsed address is
  \<^verbatim>\<open>{'road': search_term}\<close> with no other field, and resolution goes on with it:
  \<^verbatim>\<open>_fetch_coordinate\<close> executes the road-only statement whose filter and ranking both
  take the whole search term, and \<^verbatim>\<open>forward\<close> returns a list whenever the database
  returns rows for that statement.
\<close>

theorem parser_fallback:
  assumes "post_split sv q = Raised ConnectionError
           \<or> (\<exists>status_code body. post_split sv q = Responded status_code body \<and> status_code \<noteq> 200)"
  shows "parse_address (post_split sv q) q = Inr [(''road'', q)] \<and>
         (\<forall>k. k \<noteq> ''road'' \<longrightarrow> map_of [(''road'', q)] k = None) \<and>
         fetch_coordinate sv q merc_coordinate country limit
           = cursor_execute sv (build_query sv [(''road'', q)] merc_coordinate limit) \<and>
         strategy (build_query sv [(''road'', q)] merc_coordinate limit) = RoadOnly \<and>
         where_clause (build_query sv [(''road'', q)] merc_coordinate limit) = [''b.road %% %s''] \<and>
         parameters (build_query sv [(''road'', q)] merc_coordinate limit) = [q, q] \<and>
         ((\<exists>rows. cursor_execute sv (build_query sv [(''road'', q)]
               (case center of None \<Rightarrow> None | Some (c0, c1) \<Rightarrow> Some (to_mercator sv c1 c0)) 20)
             = Inr rows)
          \<longrightarrow> (\<exists>results. forward sv q country center = Inr results))"
proof -
  from assms have parsed: "parse_address (post_split sv q) q = Inr [(''road'', q)]"
    by (auto simp: parse_address_def)
  then have fetch: "\<And>m l. fetch_coordinate sv q m country l
      = cursor_execute sv (build_query sv [(''road'', q)] m l)"
    by (simp add: fetch_coordinate_def)
  have built: "strategy (build_query sv [(''road'', q)] merc_coordinate limit) = RoadOnly"
    "where_clause (build_query sv [(''road'', q)] merc_coordinate limit) = [''b.road %% %s'']"
    "parameters (build_query sv [(''road'', q)] merc_coordinate limit) = [q, q]"
    by (simp_all add: build_query_def road_query_def list_insert_def split: option.splits prod.splits)
  have fwd: "(\<exists>rows. cursor_execute sv (build_query sv [(''road'', q)]
               (case center of None \<Rightarrow> None | Some (c0, c1) \<Rightarrow> Some (to_mercator sv c1 c0)) 20)
             = Inr rows)
          \<longrightarrow> (\<exists>results. forward sv q country center = Inr results)"
    by (auto simp: forward_def fetch)
  from parsed fetch built fwd show ?thesis by simp
qed

text \<open>
  With the service unreachable, and with a service answering 503,
  \<^verbatim>\<open>"Main St 5"\<close> parses to \<^verbatim>\<open>{'road': 'Main St 5'}\<close> and
  \<^verbatim>\<open>forward\<close> returns the rows of the database.
\<close>

theorem parser_fallback_witness:
  "parse_address (post_split (example_services (Raised ConnectionError) []) ''Main St 5'')
       ''Main St 5'' = Inr [(''road'', ''Main St 5'')] \<and>
   parse_address (post_split (example_services (Responded 503 NotJson) []) ''Main St 5'')
       ''Main St 5'' = Inr [(''road'', ''Main St 5'')] \<and>
   forward (example_services (Raised ConnectionError) []) ''Main St 5'' None None
     = Inr [(''Main St 5'', 0, 0), (''Main St 5'', 0, 0)] \<and>
   forward (example_services (Responded 503 NotJson) []) ''Main St 5'' None None
     = Inr [(''Main St 5'', 0, 0), (''Main St 5'', 0, 0)]"
proof -
  have a: "post_split (example_services (Raised ConnectionError) []) ''Main St 5''
             = Raised ConnectionError"
    by (simp add: example_services_def)
  have b: "\<exists>status_code body.
             post_split (example_services (Responded 503 NotJson) []) ''Main St 5''
               = Responded status_code body \<and> status_code \<noteq> 200"
    by (simp add: example_services_def)
  have fa: "forward (example_services (Raised ConnectionError) []) ''Main St 5'' None None
     = Inr [(''Main St 5'', 0, 0), (''Main St 5'', 0, 0)]"
    using parser_fallback[OF disjI1, OF a, of None None 20 None]
    by (simp add: forward_def example_services_def)
  have fb: "forward (example_services (Responded 503 NotJson) []) ''Main St 5'' None None
     = Inr [(''Main St 5'', 0, 0), (''Main St 5'', 0, 0)]"
    using parser_fallback[OF disjI2, OF b, of None None 20 None]
    by (simp add: forward_def example_services_def)
  from parser_fallback[OF disjI1, OF a] parser_fallback[OF disjI2, OF b] fa fb
  show ?thesis by blast
qed

text \<open>
  C3 as stated, for any transport failure, does not hold. \<^verbatim>\<open>except ConnectionError\<close>
  catches that class alone, and the HTTP library reports some transport failures under
  other classes: a read timeout as \<^verbatim>\<open>ReadTimeout\<close>, a connection broken while the
  body is read as \<^verbatim>\<open>ChunkedEncodingError\<close>, neither a subclass of
  \<open>ConnectionError\<close>. With the call raising such an exception the parse step gives no
  fallback address, and \<^verbatim>\<open>forward("Main St 5")\<close> raises the exception to its
  caller.
\<close>

theorem parser_fallback_counterexample:
  "parse_address (post_split (example_services (Raised OtherRequestError) []) ''Main St 5'')
       ''Main St 5'' \<noteq> Inr [(''road'', ''Main St 5'')] \<and>
   fetch_coordinate (example_services (Raised OtherRequestError) []) ''Main St 5'' None None 20
     = Inl OtherRequestError \<and>
   forward (example_services (Raised OtherRequestError) []) ''Main St 5'' None None
     = Inl OtherRequestError"
  by (simp add: forward_def fetch_coordinate_def parse_address_def example_services_def)

text \<open>
  C10. When the parser service answers with status 200 and an empty JSON array,
  \<^verbatim>\<open>response.json()[0]\<close> raises \<open>IndexError\<close>, which is not caught:
  \<^verbatim>\<open>_fetch_coordinate\<close> and \<^verbatim>\<open>forward\<close> raise it. The parse step gives
  \<^verbatim>\<open>{'road': search_term}\<close> only on \<open>ConnectionError\<close>, on a status other than
  200, or when the service itself answers 200 with that object first.
\<close>

theorem empty_parser_response_raises:
  "(post_split sv q = Responded 200 (JsonArray []) \<longrightarrow>
      parse_address (post_split sv q) q = Inl IndexError \<and>
      fetch_coordinate sv q merc_coordinate country limit = Inl IndexError \<and>
      forward sv q country center = Inl IndexError) \<and>
   (parse_address outcome q = Inr [(''road'', q)] \<longrightarrow>
      outcome = Raised ConnectionError
      \<or> (\<exists>status_code body. outcome = Responded status_code body \<and> status_code \<noteq> 200)
      \<or> (\<exists>rest. outcome = Responded 200 (JsonArray ([(''road'', q)] # rest))))"
  by (auto simp: parse_address_def fetch_coordinate_def forward_def
      split: http_outcome.splits json_body.splits list.splits if_splits)

text \<open>
  A service that answers 200 with \<^verbatim>\<open>[]\<close> makes \<^verbatim>\<open>forward("Main St 5")\<close>
  raise \<open>IndexError\<close>; the parse step does not give the fallback address.
\<close>

theorem empty_parser_response_raises_witness:
  "forward (example_services (Responded 200 (JsonArray [])) []) ''Main St 5'' None None
     = Inl IndexError \<and>
   parse_address (Responded 200 (JsonArray [])) ''Main St 5'' \<noteq> Inr [(''road'', ''Main St 5'')]"
proof -
  have "post_split (example_services (Responded 200 (JsonArray [])) []) ''Main St 5''
          = Responded 200 (JsonArray [])"
    by (simp add: example_services_def)
  moreover have "Responded 200 (JsonArray []) \<noteq> Raised ConnectionError" by simp
  moreover have "\<not> (\<exists>status_code body.
      Responded 200 (JsonArray []) = Responded status_code body \<and> status_code \<noteq> 200)" by simp
  moreover have "\<not> (\<exists>rest. Responded 200 (JsonArray [])
      = Responded 200 (JsonArray ([(''road'', ''Main St 5'')] # rest)))" by simp
  ultimately show ?thesis
    using empty_parser_response_raises[of "example_services (Responded 200 (JsonArray [])) []"
        "''Main St 5''" None None 20 None "Responded 200 (JsonArray [])"]
    by blast
qed

end
